theory Spec2Isabelle
  imports Complex_Main "HOL-Library.AList"
begin

section \<open>Python values\<close>

text \<open>
  The metadata attached to a vector is a Python \<^verbatim>\<open>Dict[str, Any]\<close> that is written with
  \<^verbatim>\<open>json.dump\<close> and read back with \<^verbatim>\<open>json.load\<close>. Its values are modelled as JSON
  trees; \<open>JNull\<close> is Python's \<^verbatim>\<open>None\<close>. Floating-point leaves are left out.
  A Python \<^verbatim>\<open>dict\<close> is an association list in insertion order;
  \<open>AList.update\<close> is the assignment \<^verbatim>\<open>d[k] = v\<close> (an existing key keeps its place, a new
  key is appended).
\<close>

datatype json =
    JNull
  | JBool bool
  | JInt int
  | JStr string
  | JList "json list"
  | JObj "(string \<times> json) list"

definition dict_get :: "('k \<times> 'v) list \<Rightarrow> 'k \<Rightarrow> 'v \<Rightarrow> 'v" where
  "dict_get m k dflt = (case map_of m k of None \<Rightarrow> dflt | Some v \<Rightarrow> v)"

text \<open>
  Exceptions. \<open>VectorSearchError\<close> and \<open>ValidationError\<close> are the two sibling classes of
  \<^verbatim>\<open>error_handling.py\<close> (both derive from \<^verbatim>\<open>RAGChatbotError\<close>), with their message.
  The others are raised by Python itself or by the FAISS bindings.
\<close>

datatype error =
    VectorSearchError string
  | ValidationError string
  | AssertionError
  | AttributeError
  | RuntimeError
  | TypeError
  | ValueError
  | KeyError
  | OSError

fun is_VectorSearchError :: "error + 'a \<Rightarrow> bool" where
  "is_VectorSearchError (Inl (VectorSearchError m)) = True"
| "is_VectorSearchError r = False"

fun is_ValidationError :: "error + 'a \<Rightarrow> bool" where
  "is_ValidationError (Inl (ValidationError m)) = True"
| "is_ValidationError r = False"

text \<open>\<^verbatim>\<open>str(i)\<close> for a Python integer: decimal digits, most significant first.\<close>

definition digit_char :: "nat \<Rightarrow> char" where
  "digit_char n = char_of (48 + n)"

function digits10 :: "nat \<Rightarrow> string" where
  "digits10 n = (if n < 10 then [digit_char n] else digits10 (n div 10) @ [digit_char (n mod 10)])"
  by pat_completeness auto
termination
  by (relation "measure id") auto

declare digits10.simps [simp del]

definition str_int :: "int \<Rightarrow> string" where
  "str_int i = (if i < 0 then CHR ''-'' # digits10 (nat (- i)) else digits10 (nat i))"

section \<open>Configuration\<close>

text \<open>
  The fields of \<^verbatim>\<open>AppConfig\<close> that the vector store and the chunker read:
  \<^verbatim>\<open>config.vector.top_k_results\<close>, \<^verbatim>\<open>config.vector.confidence_threshold\<close>,
  \<^verbatim>\<open>config.text.chunk_size\<close>, \<^verbatim>\<open>config.text.chunk_overlap\<close> and
  \<^verbatim>\<open>config.bedrock.embedding_model_id\<close>. They come from the environment, so they are
  arbitrary values of their type.
\<close>

record app_config =
  top_k_results :: int
  confidence_threshold :: real
  chunk_size :: int
  chunk_overlap :: int
  embedding_model_id :: string

section \<open>The FAISS index\<close>

text \<open>
  Modelled from the spec: the FAISS library is not part of the repository. Section 4.3 of the
  specification describes the two index kinds it uses: \<^emph>\<open>flat\<close>, an exact brute-force L2
  search, and \<^emph>\<open>inverted-file\<close>, which partitions the vectors into \<open>nlist\<close> clusters with a
  flat quantizer and scans the cluster of the query. An index is the list \<open>xb\<close> of its
  stored vectors (the id of a vector is its position), its dimension, whether it is trained,
  and the coarse quantizer \<open>quantize\<close> that names the cluster of a vector. A flat index has
  \<open>nlist = 0\<close>, is always trained and puts every vector in one cluster. Training an
  inverted-file index runs the library's k-means, here the function \<open>clustering\<close> of the
  index, which is left arbitrary.

  Vectors have real components: \<^verbatim>\<open>float32\<close> arithmetic is idealised as exact arithmetic.
\<close>

type_synonym vec = "real list"

record faiss_index =
  dim :: nat
  nlist :: nat
  is_trained :: bool
  clustering :: "vec list \<Rightarrow> vec \<Rightarrow> nat"
  quantize :: "vec \<Rightarrow> nat"
  xb :: "vec list"

definition ntotal :: "faiss_index \<Rightarrow> nat" where
  "ntotal idx = length (xb idx)"

definition IndexFlatL2 :: "nat \<Rightarrow> faiss_index" where
  "IndexFlatL2 n = \<lparr> dim = n, nlist = 0, is_trained = True,
     clustering = (\<lambda>xs x. 0), quantize = (\<lambda>x. 0), xb = [] \<rparr>"

definition l2sqr :: "vec \<Rightarrow> vec \<Rightarrow> real" where
  "l2sqr x y = sum_list (map (\<lambda>(a, b). (a - b)\<^sup>2) (zip x y))"

text \<open>The largest finite \<^verbatim>\<open>float32\<close>, the distance FAISS reports in an empty result slot.\<close>

definition FLT_MAX :: real where
  "FLT_MAX = 340282346638528859811704183484516925440"

text \<open>
  \<^verbatim>\<open>index.search(x, k)\<close> for one query row. The Python binding asserts that the query has
  the dimension of the index and that \<open>k > 0\<close>. The library returns exactly \<open>k\<close> slots: the
  nearest scanned vectors by ascending squared L2 distance with their ids, then empty slots
  with id \<open>-1\<close>.
\<close>

definition hits_of :: "faiss_index \<Rightarrow> vec \<Rightarrow> int \<Rightarrow> (real \<times> int) list" where
  "hits_of idx q k =
     take (nat k) (sort_key fst (map (\<lambda>(i, x). (l2sqr q x, int i))
       (filter (\<lambda>(i, x). quantize idx x = quantize idx q) (enumerate 0 (xb idx)))))"

definition index_search :: "faiss_index \<Rightarrow> vec \<Rightarrow> int \<Rightarrow> error + (real list \<times> int list)" where
  "index_search idx q k =
     (if length q \<noteq> dim idx then Inl AssertionError
      else if \<not> 0 < k then Inl AssertionError
      else
        let hits = hits_of idx q k;
            slots = hits @ replicate (nat k - length hits) (FLT_MAX, - 1)
        in Inr (map fst slots, map snd slots))"

text \<open>
  \<^verbatim>\<open>index.train(x)\<close>: a no-op on a trained index; k-means needs at least \<open>nlist\<close> points.
\<close>

definition index_train :: "faiss_index \<Rightarrow> vec list \<Rightarrow> error + faiss_index" where
  "index_train idx xs =
     (if \<exists>x \<in> set xs. length x \<noteq> dim idx then Inl AssertionError
      else if is_trained idx then Inr idx
      else if length xs < nlist idx then Inl RuntimeError
      else Inr (idx \<lparr> is_trained := True, quantize := clustering idx xs \<rparr>))"

text \<open>\<^verbatim>\<open>index.add(x)\<close>: the new vectors get the ids \<open>ntotal, ntotal + 1, ...\<close>.\<close>

definition index_add :: "faiss_index \<Rightarrow> vec list \<Rightarrow> error + faiss_index" where
  "index_add idx xs =
     (if \<exists>x \<in> set xs. length x \<noteq> dim idx then Inl AssertionError
      else if \<not> is_trained idx then Inl RuntimeError
      else Inr (idx \<lparr> xb := xb idx @ xs \<rparr>))"

section \<open>VectorStoreManager\<close>

record VectorSearchResult =
  chunk_id :: json
  content :: json
  similarity_score :: real
  result_metadata :: json
  document_id :: json
  source_file :: json
  page_number :: json
  article_number :: json

text \<open>
  \<^verbatim>\<open>IndexManifest\<close>. A \<^verbatim>\<open>datetime\<close> is represented by its ISO text.
\<close>

record IndexManifest =
  version :: json
  created_at :: string
  total_chunks :: json
  embedding_model :: json
  manifest_chunk_size :: json
  manifest_chunk_overlap :: json
  documents :: json

text \<open>The manager's attributes. \<open>index = None\<close> is \<^verbatim>\<open>self.index is None\<close>.\<close>

record manager =
  config :: app_config
  index :: "faiss_index option"
  metadata :: "(int \<times> json) list"
  manifest :: "IndexManifest option"

definition new_manager :: "app_config \<Rightarrow> manager" where
  "new_manager cfg = \<lparr> config = cfg, index = None, metadata = [], manifest = None \<rparr>"

text \<open>
  Methods that change the manager return the outcome together with the manager as it is
  when the method returns or raises.
\<close>

definition train_index :: "manager \<Rightarrow> vec list \<Rightarrow> (error + unit) \<times> manager" where
  "train_index st embeddings =
     (case index st of
        None \<Rightarrow> (Inl (VectorSearchError ''Index not created. Call create_index() first.''), st)
      | Some idx \<Rightarrow>
          if \<not> is_trained idx then
            (case index_train idx embeddings of
               Inl e \<Rightarrow> (Inl e, st)
             | Inr idx' \<Rightarrow> (Inr (), st \<lparr> index := Some idx' \<rparr>))
          else (Inr (), st))"

text \<open>The loop \<^verbatim>\<open>for i, meta in enumerate(metadata): self.metadata[start_id + i] = meta\<close>.\<close>

fun store_metadata :: "int \<Rightarrow> json list \<Rightarrow> (int \<times> json) list \<Rightarrow> (int \<times> json) list" where
  "store_metadata start_id [] m = m"
| "store_metadata start_id (meta # metas) m =
     store_metadata (start_id + 1) metas (AList.update start_id meta m)"

definition add_vectors :: "manager \<Rightarrow> vec list \<Rightarrow> json list \<Rightarrow> (error + unit) \<times> manager" where
  "add_vectors st embeddings metas =
     (case index st of
        None \<Rightarrow> (Inl (VectorSearchError ''Index not created. Call create_index() first.''), st)
      | Some idx0 \<Rightarrow>
          if length embeddings \<noteq> length metas then
            (Inl (VectorSearchError
               ''Number of embeddings must match number of metadata entries''), st)
          else
            (case (if \<not> is_trained idx0 then train_index st embeddings else (Inr (), st)) of
               (Inl e, st1) \<Rightarrow> (Inl e, st1)
             | (Inr u, st1) \<Rightarrow>
                 (case index st1 of
                    None \<Rightarrow> (Inl AttributeError, st1)
                  | Some idx \<Rightarrow>
                      let start_id = int (ntotal idx) in
                      (case index_add idx embeddings of
                         Inl e \<Rightarrow> (Inl e, st1)
                       | Inr idx' \<Rightarrow>
                           (Inr (), st1 \<lparr> index := Some idx',
                              metadata := store_metadata start_id metas (metadata st1) \<rparr>)))))"

text \<open>
  \<^verbatim>\<open>x or default\<close>: \<^verbatim>\<open>None\<close> and zero are falsy.
\<close>

definition or_default :: "'a::zero option \<Rightarrow> 'a \<Rightarrow> 'a" where
  "or_default x dflt = (case x of None \<Rightarrow> dflt | Some v \<Rightarrow> if v = 0 then dflt else v)"

definition make_result :: "(int \<times> json) list \<Rightarrow> int \<Rightarrow> real \<Rightarrow> error + VectorSearchResult" where
  "make_result md idx similarity =
     (case dict_get md idx (JObj []) of
        JObj m \<Rightarrow> Inr \<lparr>
          chunk_id = dict_get m ''chunk_id'' (JStr (''chunk_'' @ str_int idx)),
          content = dict_get m ''content'' (JStr ''''),
          similarity_score = similarity,
          result_metadata = JObj m,
          document_id = dict_get m ''document_id'' JNull,
          source_file = dict_get m ''source_file'' JNull,
          page_number = dict_get m ''page_number'' JNull,
          article_number = dict_get m ''article_number'' JNull \<rparr>
      | _ \<Rightarrow> Inl AttributeError)"

text \<open>The loop over \<^verbatim>\<open>zip(indices[0], similarities)\<close> with its two \<^verbatim>\<open>continue\<close>s.\<close>

fun collect_results ::
  "(int \<times> json) list \<Rightarrow> real \<Rightarrow> (int \<times> real) list \<Rightarrow> error + VectorSearchResult list" where
  "collect_results md thr [] = Inr []"
| "collect_results md thr ((idx, similarity) # rest) =
     (if idx = - 1 then collect_results md thr rest
      else if similarity < thr then collect_results md thr rest
      else
        (case make_result md idx similarity of
           Inl e \<Rightarrow> Inl e
         | Inr r \<Rightarrow>
             (case collect_results md thr rest of
                Inl e \<Rightarrow> Inl e
              | Inr rs \<Rightarrow> Inr (r # rs))))"

definition similarities :: "real list \<Rightarrow> real list" where
  "similarities distances =
     (let max_distance = (if distances \<noteq> [] then Max (set distances) else 1)
      in map (\<lambda>x. 1 - x / (max_distance + 1 / 10 ^ 8)) distances)"


text \<open>\<^verbatim>\<open>search\<close> does not assign to any attribute, so it returns its outcome only.\<close>

definition search ::
  "manager \<Rightarrow> vec \<Rightarrow> int option \<Rightarrow> real option \<Rightarrow> error + VectorSearchResult list" where
  "search st query_embedding k thr =
     (case index st of
        None \<Rightarrow> Inl (VectorSearchError ''Index is empty or not loaded'')
      | Some idx \<Rightarrow>
          if ntotal idx = 0 then Inl (VectorSearchError ''Index is empty or not loaded'')
          else
            let k' = or_default k (top_k_results (config st));
                thr' = or_default thr (confidence_threshold (config st))
            in (case index_search idx query_embedding k' of
                  Inl e \<Rightarrow> Inl e
                | Inr (distances, indices) \<Rightarrow>
                    collect_results (metadata st) thr' (zip indices (similarities distances))))"

section \<open>VietnameseTextProcessor\<close>

text \<open>
  A Python \<^verbatim>\<open>str\<close> is a list of Unicode code points, so that \<^verbatim>\<open>len\<close> counts characters
  also for Vietnamese text. \<open>ucs\<close> reads an ASCII literal as such a string.
\<close>

type_synonym pystr = "nat list"

definition ucs :: "string \<Rightarrow> pystr" where
  "ucs s = map of_char s"

text \<open>
  The characters that \<^verbatim>\<open>str.strip\<close> removes and the pattern \<^verbatim>\<open>\s\<close> matches: Python's
  Unicode whitespace.
\<close>

definition is_space :: "nat \<Rightarrow> bool" where
  "is_space c \<longleftrightarrow>
     (9 \<le> c \<and> c \<le> 13) \<or> (28 \<le> c \<and> c \<le> 32) \<or> c = 133 \<or> c = 160 \<or> c = 5760
     \<or> (8192 \<le> c \<and> c \<le> 8202) \<or> c = 8232 \<or> c = 8233 \<or> c = 8239 \<or> c = 8287 \<or> c = 12288"

definition strip :: "pystr \<Rightarrow> pystr" where
  "strip s = rev (dropWhile is_space (rev (dropWhile is_space s)))"

text \<open>The class \<^verbatim>\<open>[.!?]\<close>.\<close>

definition is_end :: "nat \<Rightarrow> bool" where
  "is_end c \<longleftrightarrow> c = 46 \<or> c = 33 \<or> c = 63"

text \<open>
  \<^verbatim>\<open>re.split(r'[.!?]+(?:\s|$)', text)\<close>, scanning from the left with the piece \<open>cur\<close> read
  so far. At a character of the class the greedy run of such characters is a separator when
  it is followed by a whitespace character, which the match consumes, or by the end of the
  text; otherwise no match starts anywhere in the run, and the run belongs to the piece.
\<close>

function re_split :: "pystr \<Rightarrow> pystr \<Rightarrow> pystr list" where
  "re_split cur [] = [cur]"
| "re_split cur (c # rest) =
     (if is_end c then
        (case dropWhile is_end rest of
           [] \<Rightarrow> [cur, []]
         | a # after \<Rightarrow>
             if is_space a then cur # re_split [] after
             else re_split (cur @ c # takeWhile is_end rest) (a # after))
      else re_split (cur @ [c]) rest)"
  by pat_completeness auto
termination
proof (relation "measure (\<lambda>(cur, text). length text)")
  show "wf (measure (\<lambda>(cur, text). length text))" by simp
next
  fix cur :: pystr and c rest a after
  assume "dropWhile is_end rest = a # after"
  then have "length (a # after) \<le> length rest"
    by (metis length_dropWhile_le)
  then show "(([], after), cur, c # rest) \<in> measure (\<lambda>(cur, text). length text)"
    and "((cur @ c # takeWhile is_end rest, a # after), cur, c # rest)
           \<in> measure (\<lambda>(cur, text). length text)"
    by simp_all
next
  fix cur :: pystr and c rest
  show "((cur @ [c], rest), cur, c # rest) \<in> measure (\<lambda>(cur, text). length text)"
    by simp
qed

text \<open>\<^verbatim>\<open>_split_sentences\<close>: the pieces, stripped, without the blank ones.\<close>

definition split_sentences :: "pystr \<Rightarrow> pystr list" where
  "split_sentences text = map strip (filter (\<lambda>s. strip s \<noteq> []) (re_split [] text))"

text \<open>One chunk dictionary, with its keys \<^verbatim>\<open>chunk_index\<close>, \<^verbatim>\<open>content\<close>, \<^verbatim>\<open>size\<close>,
  \<^verbatim>\<open>start_pos\<close> and \<^verbatim>\<open>end_pos\<close>.\<close>

record chunk =
  chunk_index :: nat
  chunk_content :: pystr
  chunk_len :: int
  start_pos :: int
  end_pos :: int

text \<open>
  The state of the loop of \<^verbatim>\<open>chunk_text\<close>: \<^verbatim>\<open>chunks\<close>, \<^verbatim>\<open>current_chunk\<close>,
  \<^verbatim>\<open>current_size\<close> and \<^verbatim>\<open>chunk_index\<close>.
\<close>

type_synonym chunk_state = "chunk list \<times> pystr \<times> int \<times> nat"

definition seal :: "chunk list \<Rightarrow> pystr \<Rightarrow> int \<Rightarrow> nat \<Rightarrow> chunk" where
  "seal chunks current_chunk current_size idx =
     (let start = int (length (concat (map chunk_content (take idx chunks))))
      in \<lparr> chunk_index = idx, chunk_content = strip current_chunk, chunk_len = current_size,
           start_pos = start, end_pos = start + current_size \<rparr>)"

text \<open>The body of \<^verbatim>\<open>for sentence in sentences\<close>.\<close>

fun chunk_step :: "int \<Rightarrow> int \<Rightarrow> chunk_state \<Rightarrow> pystr \<Rightarrow> chunk_state" where
  "chunk_step csize overlap (chunks, current_chunk, current_size, idx) sentence =
     (let sentence_length = int (length sentence) in
      if current_size + sentence_length > csize \<and> current_chunk \<noteq> [] then
        (let chunks' = chunks @ [seal chunks current_chunk current_size idx] in
         if overlap > 0 then
           (let overlap_text =
                  (if int (length current_chunk) > overlap
                   then drop (length current_chunk - nat overlap) current_chunk
                   else current_chunk);
                current_chunk' = overlap_text @ 32 # sentence
            in (chunks', current_chunk', int (length current_chunk'), idx + 1))
         else (chunks', sentence, sentence_length, idx + 1))
      else
        (let current_chunk' =
               (if current_chunk \<noteq> [] then current_chunk @ 32 # sentence else sentence)
         in (chunks, current_chunk',
             current_size + sentence_length + (if current_chunk' \<noteq> sentence then 1 else 0),
             idx)))"

definition chunk_loop :: "int \<Rightarrow> int \<Rightarrow> pystr list \<Rightarrow> chunk_state" where
  "chunk_loop csize overlap sentences = foldl (chunk_step csize overlap) ([], [], 0, 0) sentences"

text \<open>The last statement: the buffer becomes the final chunk unless it is blank.\<close>

fun flush :: "chunk_state \<Rightarrow> chunk list" where
  "flush (chunks, current_chunk, current_size, idx) =
     (if strip current_chunk \<noteq> [] then
        (let start = int (length (concat (map chunk_content chunks)))
         in chunks @ [\<lparr> chunk_index = idx, chunk_content = strip current_chunk,
              chunk_len = current_size, start_pos = start, end_pos = start + current_size \<rparr>])
      else chunks)"

text \<open>
  \<^verbatim>\<open>chunk_text\<close>. \<^verbatim>\<open>clean_text\<close> (Unicode normalisation followed by regular-expression
  substitutions) only prepares the text that is split; it is a parameter here, so what is
  proved holds whatever it returns.
\<close>

definition chunk_text ::
  "(pystr \<Rightarrow> pystr) \<Rightarrow> app_config \<Rightarrow> pystr \<Rightarrow> int option \<Rightarrow> int option \<Rightarrow> chunk list" where
  "chunk_text clean_text cfg text csize overlap =
     (if text = [] then []
      else
        let csize' = or_default csize (chunk_size cfg);
            overlap' = or_default overlap (chunk_overlap cfg);
            cleaned_text = clean_text text;
            sentences = split_sentences cleaned_text
        in flush (chunk_loop csize' overlap' sentences))"

text \<open>What the loop keeps true of its counters.\<close>

fun chunk_inv :: "chunk_state \<Rightarrow> bool" where
  "chunk_inv (chunks, current_chunk, current_size, idx) \<longleftrightarrow>
     current_size = int (length current_chunk) \<and> idx = length chunks
     \<and> map chunk_index chunks = [0..<length chunks]"




section \<open>Persistence\<close>








text \<open>
  The file system maps a path to what the file holds: a FAISS index in its binary format,
  a JSON document, or something that is neither. Serialising and parsing are the libraries'
  work and are taken to be inverse to each other, so a file holds the value itself. The
  empty path names no file. No other I/O failure is modelled.
\<close>

datatype stored_file = FaissFile faiss_index | JsonFile json | OtherFile





















section \<open>Example states\<close>

text \<open>
  The defaults of \<^verbatim>\<open>constants.py\<close>: five results, confidence 0.7, chunks of 512
  characters with an overlap of 50.
\<close>

definition default_config :: app_config where
  "default_config = \<lparr> top_k_results = 5, confidence_threshold = 7 / 10,
     chunk_size = 512, chunk_overlap = 50,
     embedding_model_id = ''amazon.titan-embed-text-v2:0'' \<rparr>"

definition meta_of :: "string \<Rightarrow> json" where
  "meta_of c = JObj [(''chunk_id'', JStr c), (''content'', JStr c)]"

text \<open>A flat index of dimension 2 holding three vectors, with their metadata.\<close>

definition example_index :: faiss_index where
  "example_index = (IndexFlatL2 2) \<lparr> xb := [[0, 0], [3, 4], [1, 0]] \<rparr>"

definition example_manager :: manager where
  "example_manager = \<lparr> config = default_config, index = Some example_index,
     metadata = [(0, meta_of ''a''), (1, meta_of ''b''), (2, meta_of ''c'')],
     manifest = None \<rparr>"

definition example_result :: "string \<Rightarrow> real \<Rightarrow> VectorSearchResult" where
  "example_result c s = \<lparr> chunk_id = JStr c, content = JStr c, similarity_score = s,
     result_metadata = meta_of c, document_id = JNull, source_file = JNull,
     page_number = JNull, article_number = JNull \<rparr>"


definition example_results_all :: "VectorSearchResult list" where
  "example_results_all =
     [example_result ''a'' 1,
      example_result ''c'' (1 - 1 / (FLT_MAX + 1 / 10 ^ 8)),
      example_result ''b'' (1 - 25 / (FLT_MAX + 1 / 10 ^ 8))]"


text \<open>Three sentences of two characters, and two of five.\<close>

definition short_text :: pystr where
  "short_text = ucs ''ab. cd. ef.''"





section \<open>Searching an empty store\<close>

text \<open>
  C6. A search on a manager that has no index, or whose index holds no vector, raises
  \<^verbatim>\<open>VectorSearchError\<close>; it never returns a result list, not even an empty one.
\<close>

theorem search_empty_index_raises:
  assumes "index st = None \<or> (\<exists>idx. index st = Some idx \<and> ntotal idx = 0)"
  shows "search st q k thr = Inl (VectorSearchError ''Index is empty or not loaded'')"
  using assms by (auto simp: search_def)

theorem search_empty_index_raises_witness:
  "search (new_manager default_config) [1, 2] (Some 3) None
     = Inl (VectorSearchError ''Index is empty or not loaded'')
   \<and> search ((new_manager default_config) \<lparr> index := Some (IndexFlatL2 2) \<rparr>) [1, 2] (Some 3) None
     = Inl (VectorSearchError ''Index is empty or not loaded'')"
proof -
  have a: "index (new_manager default_config) = None"
    by (simp add: new_manager_def)
  have b: "\<exists>idx. index ((new_manager default_config) \<lparr> index := Some (IndexFlatL2 2) \<rparr>) = Some idx
             \<and> ntotal idx = 0"
    by (simp add: IndexFlatL2_def ntotal_def)
  show ?thesis
    using search_empty_index_raises [of "new_manager default_config" "[1, 2]" "Some 3" None]
      search_empty_index_raises
        [of "(new_manager default_config) \<lparr> index := Some (IndexFlatL2 2) \<rparr>" "[1, 2]" "Some 3" None]
      a b
    by blast
qed

section \<open>Properties of search\<close>

















text \<open>
  A search returns whenever the index holds a vector, the query has the dimension of the
  index, the effective \<open>k\<close> is positive and every metadata entry is a dictionary: the three
  properties below are about results that exist.
\<close>

lemma collect_results_returns:
  assumes "\<forall>v \<in> snd ` set md. \<exists>m. v = JObj m"
  shows "\<exists>rs. collect_results md thr zs = Inr rs"
proof (induction zs)
  case Nil
  show ?case by simp
next
  case (Cons z zs)
  obtain i s where z: "z = (i, s)" by (cases z)
  have "\<exists>m. dict_get md i (JObj []) = JObj m"
    using assms by (auto simp: dict_get_def split: option.splits dest!: map_of_SomeD)
  then obtain r where "make_result md i s = Inr r"
    by (auto simp: make_result_def)
  then show ?case
    using Cons.IH z by auto
qed

lemma search_returns:
  assumes "index st = Some idx" "xb idx \<noteq> []" "length q = dim idx"
    and "0 < or_default k (top_k_results (config st))"
    and "\<forall>v \<in> snd ` set (metadata st). \<exists>m. v = JObj m"
  shows "\<exists>rs. search st q k thr = Inr rs"
  using assms collect_results_returns [OF assms(5)]
  by (simp add: search_def ntotal_def index_search_def Let_def)







section \<open>Falsy arguments of search\<close>


text \<open>
  On the example store the nearest vectors to \<open>[0, 0]\<close> are at squared distance 0, 1 and 25.
  With \<open>k = 3\<close> and a threshold of \<open>0.0\<close> the vector at distance 25, whose score
  \<open>1 - 25 / (25 + \<epsilon>)\<close> is positive, is still filtered by the default 0.7; and \<open>k = 0\<close> with a
  negative threshold returns the three vectors, not none.
\<close>

lemma search_zero_threshold_example:
  "search example_manager [0, 0] (Some 3) (Some 0)
     = Inr [example_result ''a'' 1, example_result ''c'' (1 - 1 / (25 + 1 / 10 ^ 8))]"
  by (simp add: search_def example_manager_def example_index_def IndexFlatL2_def ntotal_def
      or_default_def default_config_def index_search_def hits_of_def enumerate_eq_zip l2sqr_def
      similarities_def make_result_def dict_get_def meta_of_def example_result_def)

lemma search_zero_k_example:
  "search example_manager [0, 0] (Some 0) (Some (- 1)) = Inr example_results_all"
  by (simp add: search_def example_manager_def example_index_def IndexFlatL2_def ntotal_def
      or_default_def default_config_def index_search_def hits_of_def enumerate_eq_zip l2sqr_def
      similarities_def make_result_def dict_get_def meta_of_def FLT_MAX_def numeral_2_eq_2
      example_results_all_def example_result_def)

section \<open>Adding vectors\<close>

text \<open>
  C5 as stated fails: with one embedding and no metadata entry the exception is not a
  \<^verbatim>\<open>ValidationError\<close>.
\<close>

theorem add_vectors_mismatch_not_ValidationError:
  "\<not> is_ValidationError (fst (add_vectors example_manager [[1, 1]] []))"
  by (simp add: add_vectors_def example_manager_def)

text \<open>
  C5, amended. When the number of embeddings differs from the number of metadata entries,
  \<^verbatim>\<open>add_vectors\<close> raises \<^verbatim>\<open>VectorSearchError\<close> (the only exception class this module raises)
  and leaves the manager, so its index and its metadata, as they were.
\<close>

theorem add_vectors_length_mismatch:
  assumes "length embeddings \<noteq> length metas"
  shows "is_VectorSearchError (fst (add_vectors st embeddings metas))
    \<and> snd (add_vectors st embeddings metas) = st"
  using assms by (simp add: add_vectors_def split: option.splits)

theorem add_vectors_length_mismatch_witness:
  "length [[1, 1 :: real]] \<noteq> length ([] :: json list)
   \<and> fst (add_vectors example_manager [[1, 1]] [])
       = Inl (VectorSearchError ''Number of embeddings must match number of metadata entries'')
   \<and> is_VectorSearchError (fst (add_vectors example_manager [[1, 1]] []))
   \<and> snd (add_vectors example_manager [[1, 1]] []) = example_manager"
proof -
  have h: "length [[1, 1 :: real]] \<noteq> length ([] :: json list)" by simp
  have e: "fst (add_vectors example_manager [[1, 1]] [])
       = Inl (VectorSearchError ''Number of embeddings must match number of metadata entries'')"
    by (simp add: add_vectors_def example_manager_def)
  show ?thesis
    using add_vectors_length_mismatch [OF h, of example_manager] h e by simp
qed










section \<open>Properties of the chunker\<close>


lemma strip_id:
  assumes "s \<noteq> []" "\<not> is_space (hd s)" "\<not> is_space (last s)"
  shows "strip s = s"
proof -
  have a: "dropWhile is_space s = s"
    using assms(1,2) by (cases s) auto
  have "rev s \<noteq> []" "\<not> is_space (hd (rev s))"
    using assms(1,3) by (auto simp: hd_rev)
  then have "dropWhile is_space (rev s) = rev s"
    by (cases "rev s") auto
  then show ?thesis
    by (simp add: strip_def a)
qed

lemma last_dropWhile_nonempty: "dropWhile P xs \<noteq> [] \<Longrightarrow> last (dropWhile P xs) = last xs"
  by (induction xs) (auto split: if_splits)

lemma strip_ends:
  assumes "strip s \<noteq> []"
  shows "\<not> is_space (hd (strip s))" "\<not> is_space (last (strip s))"
proof -
  let ?t = "dropWhile is_space s"
  let ?u = "dropWhile is_space (rev ?t)"
  have u: "?u \<noteq> []" using assms by (simp add: strip_def)
  have t: "?t \<noteq> []"
  proof
    assume e: "?t = []"
    have "?u = []" unfolding e by simp
    then show False using u by simp
  qed
  have "\<not> is_space (hd ?u)" using u by (rule hd_dropWhile)
  then show "\<not> is_space (last (strip s))"
    using u by (simp add: strip_def last_rev)
  have "last ?u = last (rev ?t)" using u by (rule last_dropWhile_nonempty)
  also have "\<dots> = hd ?t" using t by (simp add: last_rev)
  finally have "hd (strip s) = hd ?t"
    using u by (simp add: strip_def hd_rev)
  moreover have "\<not> is_space (hd ?t)" using t by (rule hd_dropWhile)
  ultimately show "\<not> is_space (hd (strip s))" by simp
qed

lemma strip_idem: "strip (strip s) = strip s"
proof (cases "strip s = []")
  case True
  have "strip [] = []" by (simp add: strip_def)
  then show ?thesis using True by simp
next
  case False
  then show ?thesis by (intro strip_id strip_ends)
qed

text \<open>A stripped, non-blank string stays at the end of whatever it is appended to.\<close>

lemma strip_append:
  assumes "s \<noteq> []" "strip s = s"
  shows "\<exists>p. strip (p' @ s) = p @ s"
proof -
  have e: "\<not> is_space (hd s)" "\<not> is_space (last s)"
    using strip_ends [of s] assms by auto
  have d: "dropWhile is_space s = s"
    using assms(1) e(1) by (cases s) auto
  obtain q where q: "dropWhile is_space (p' @ s) = q @ s"
  proof (cases "\<forall>x \<in> set p'. is_space x")
    case True
    then have "dropWhile is_space (p' @ s) = [] @ s"
      by (simp add: dropWhile_append2 d)
    then show ?thesis using that by blast
  next
    case False
    then have "dropWhile is_space (p' @ s) = dropWhile is_space p' @ s"
      by (auto simp: dropWhile_append1)
    then show ?thesis using that by blast
  qed
  have "rev (q @ s) \<noteq> []" "\<not> is_space (hd (rev (q @ s)))"
    using assms(1) e(2) by (auto simp: hd_append hd_rev)
  then have "dropWhile is_space (rev (q @ s)) = rev (q @ s)"
    by (cases "rev (q @ s)") auto
  then have "strip (p' @ s) = q @ s"
    unfolding strip_def q by simp
  then show ?thesis by blast
qed

lemma split_sentences_stripped:
  assumes "s \<in> set (split_sentences text)"
  shows "s \<noteq> []" "strip s = s"
  using assms by (auto simp: split_sentences_def strip_idem)

lemma foldl_invariant:
  assumes "P st" and "\<And>st x. P st \<Longrightarrow> x \<in> set xs \<Longrightarrow> P (f st x)"
  shows "P (foldl f st xs)"
  using assms by (induction xs arbitrary: st) auto

text \<open>The counters of the loop: the size is the length of the buffer, the index is the
  number of chunks, and the chunks are numbered from 0.\<close>

lemma chunk_step_counters:
  assumes "chunk_inv st"
  shows "chunk_inv (chunk_step csize ov st s)"
proof -
  obtain chunks cur sz idx where st: "st = (chunks, cur, sz, idx)"
    by (cases st) auto
  show ?thesis
    using assms unfolding st
    by (auto simp: Let_def seal_def)
qed

lemma chunk_loop_counters: "chunk_inv (chunk_loop csize ov sentences)"
  unfolding chunk_loop_def
  by (rule foldl_invariant) (auto intro: chunk_step_counters)

lemma flush_indices:
  assumes "chunk_inv st"
  shows "map chunk_index (flush st) = [0..<length (flush st)]"
proof -
  obtain chunks cur sz idx where st: "st = (chunks, cur, sz, idx)"
    by (cases st) auto
  show ?thesis
    using assms unfolding st by (auto simp: Let_def)
qed

text \<open>After a sentence has been read the buffer ends with it.\<close>

lemma chunk_step_buffer:
  "\<exists>p. fst (snd (chunk_step csize ov st s)) = p @ s"
proof -
  obtain chunks cur sz idx where st: "st = (chunks, cur, sz, idx)"
    by (cases st) auto
  have "\<And>a. a @ 32 # s = (a @ [32]) @ s" by simp
  then show ?thesis
    unfolding st by (auto simp: Let_def intro: exI [of _ "[]"])
qed

lemma chunk_loop_buffer:
  assumes "sentences \<noteq> []"
  shows "\<exists>p. fst (snd (chunk_loop csize ov sentences)) = p @ last sentences"
proof -
  obtain xs x where "sentences = xs @ [x]"
    using assms by (metis append_butlast_last_id)
  then show ?thesis
    by (simp add: chunk_loop_def chunk_step_buffer)
qed

lemma flush_content:
  assumes "strip (fst (snd st)) \<noteq> []"
  shows "flush st \<noteq> [] \<and> chunk_content (last (flush st)) = strip (fst (snd st))
    \<and> chunk_index (last (flush st)) = snd (snd (snd st))"
proof -
  obtain chunks cur sz idx where st: "st = (chunks, cur, sz, idx)"
    by (cases st) auto
  show ?thesis
    using assms unfolding st by (simp add: Let_def)
qed





text \<open>
  C8. \<^verbatim>\<open>chunk_text\<close> is a total function of its arguments: no statement of it can raise
  on a string and two optional integers, so the model has no error result. The empty
  text gives no chunk; the chunks are numbered 0, 1, 2, ... in order; a text without a
  sentence gives no chunk; and when the text has a sentence the buffer left by the loop is
  not blank and is flushed: the final chunk is that buffer, stripped, and ends with the last
  sentence.
\<close>

theorem chunk_text_total_sequential_flushed:
  "chunk_text clean_text cfg [] csize overlap = []
   \<and> map chunk_index (chunk_text clean_text cfg text csize overlap)
       = [0..<length (chunk_text clean_text cfg text csize overlap)]
   \<and> (split_sentences (clean_text text) = [] \<longrightarrow>
        chunk_text clean_text cfg text csize overlap = [])
   \<and> (text \<noteq> [] \<and> split_sentences (clean_text text) \<noteq> [] \<longrightarrow>
        chunk_text clean_text cfg text csize overlap \<noteq> []
        \<and> chunk_content (last (chunk_text clean_text cfg text csize overlap))
            = strip (fst (snd (chunk_loop (or_default csize (chunk_size cfg))
                (or_default overlap (chunk_overlap cfg)) (split_sentences (clean_text text)))))
        \<and> (\<exists>p. chunk_content (last (chunk_text clean_text cfg text csize overlap))
              = p @ last (split_sentences (clean_text text))))"
proof -
  let ?cs = "or_default csize (chunk_size cfg)"
  let ?ov = "or_default overlap (chunk_overlap cfg)"
  let ?S = "split_sentences (clean_text text)"
  let ?st = "chunk_loop ?cs ?ov ?S"
  have ct: "chunk_text clean_text cfg text csize overlap = (if text = [] then [] else flush ?st)"
    by (simp add: chunk_text_def Let_def)
  have a: "chunk_text clean_text cfg [] csize overlap = []"
    by (simp add: chunk_text_def)
  have b: "map chunk_index (chunk_text clean_text cfg text csize overlap)
       = [0..<length (chunk_text clean_text cfg text csize overlap)]"
    unfolding ct using flush_indices [OF chunk_loop_counters, of ?cs ?ov ?S] by simp
  have c: "chunk_text clean_text cfg text csize overlap = []" if "?S = []"
    unfolding ct using that by (simp add: chunk_loop_def strip_def)
  have d: "chunk_text clean_text cfg text csize overlap \<noteq> []
        \<and> chunk_content (last (chunk_text clean_text cfg text csize overlap))
            = strip (fst (snd ?st))
        \<and> (\<exists>p. chunk_content (last (chunk_text clean_text cfg text csize overlap))
              = p @ last ?S)"
    if t: "text \<noteq> []" and s: "?S \<noteq> []"
  proof -
    have l: "last ?S \<in> set ?S" using s by simp
    obtain p' where p': "fst (snd ?st) = p' @ last ?S"
      using chunk_loop_buffer [OF s] by blast
    obtain p where p: "strip (fst (snd ?st)) = p @ last ?S"
      unfolding p' using strip_append [OF split_sentences_stripped [OF l]] by blast
    then have ne: "strip (fst (snd ?st)) \<noteq> []"
      using split_sentences_stripped(1) [OF l] by simp
    show ?thesis
      unfolding ct using t flush_content [OF ne] p by auto
  qed
  show ?thesis
    using a b c d by blast
qed

lemma short_text_sentences:
  "split_sentences short_text = [ucs ''ab'', ucs ''cd'', ucs ''ef'']"
  by (simp add: short_text_def ucs_def split_sentences_def is_end_def is_space_def strip_def)

lemma short_text_chunks:
  "chunk_text (\<lambda>t. t) default_config short_text (Some 4) (Some 2) =
     [\<lparr> chunk_index = 0, chunk_content = ucs ''ab cd'', chunk_len = 5, start_pos = 0, end_pos = 5 \<rparr>,
      \<lparr> chunk_index = 1, chunk_content = ucs ''cd ef'', chunk_len = 5, start_pos = 5, end_pos = 10 \<rparr>]"
  by (simp add: chunk_text_def chunk_loop_def seal_def or_default_def short_text_def ucs_def
      split_sentences_def is_end_def is_space_def strip_def)

theorem chunk_text_total_sequential_flushed_witness:
  "short_text \<noteq> []
   \<and> split_sentences short_text = [ucs ''ab'', ucs ''cd'', ucs ''ef'']
   \<and> map chunk_index (chunk_text (\<lambda>t. t) default_config short_text (Some 4) (Some 2)) = [0, 1]
   \<and> chunk_content (last (chunk_text (\<lambda>t. t) default_config short_text (Some 4) (Some 2)))
       = ucs ''cd ef''
   \<and> (\<exists>p. chunk_content (last (chunk_text (\<lambda>t. t) default_config short_text (Some 4) (Some 2)))
         = p @ ucs ''ef'')"
proof -
  have t: "short_text \<noteq> []" by (simp add: short_text_def ucs_def)
  have s: "split_sentences short_text \<noteq> []"
    by (simp add: short_text_sentences)
  have "\<exists>p. chunk_content (last (chunk_text (\<lambda>t. t) default_config short_text (Some 4) (Some 2)))
         = p @ last (split_sentences short_text)"
    using chunk_text_total_sequential_flushed [of "\<lambda>t. t" default_config "Some 4" "Some 2" short_text]
      t s by blast
  then show ?thesis
    using t by (simp add: short_text_sentences short_text_chunks)
qed





section \<open>Properties of persistence\<close>
























end
